theory Spec2Isabelle
  imports Main
begin

section \<open>ClientPinnedMessages: the pin store\<close>

text \<open>
  The plugin keeps a module-level array \<open>pinnedMessages\<close> and mirrors it into the host's
  key-value store under \<open>PINNED_KEY\<close>. The model threads both through a record; the two
  blocking \<open>alert\<close> calls of \<open>togglePin\<close> are kept as a log. \<open>Date.now()\<close> is an
  input of every toggle. Console output is not part of any state below.
\<close>

record PinnedMessage =
  pin_id :: string
  channelId :: string
  content :: string
  author :: string
  timestamp :: nat

text \<open>The host's message object, as far as \<open>togglePin\<close> reads it.\<close>

record user =
  username :: string

record message =
  message_id :: string
  channel_id :: string
  message_content :: string
  message_author :: user

record pin_state =
  pinnedMessages :: "PinnedMessage list"
  DataStore :: "string \<rightharpoonup> PinnedMessage list"
  alerts :: "string list"

definition PINNED_KEY :: string where
  "PINNED_KEY = ''ClientPinnedMessages''"

definition loadPinnedMessages :: "pin_state \<Rightarrow> PinnedMessage list" where
  "loadPinnedMessages s = (case DataStore s PINNED_KEY of None \<Rightarrow> [] | Some pins \<Rightarrow> pins)"

definition savePinnedMessages :: "PinnedMessage list \<Rightarrow> pin_state \<Rightarrow> pin_state" where
  "savePinnedMessages pins s = s\<lparr>DataStore := (DataStore s)(PINNED_KEY \<mapsto> pins)\<rparr>"

definition isPinned :: "string \<Rightarrow> pin_state \<Rightarrow> bool" where
  "isPinned messageId s = list_ex (\<lambda>pin. pin_id pin = messageId) (pinnedMessages s)"

definition alert :: "string \<Rightarrow> pin_state \<Rightarrow> pin_state" where
  "alert text s = s\<lparr>alerts := alerts s @ [text]\<rparr>"

definition togglePin :: "message \<Rightarrow> nat \<Rightarrow> pin_state \<Rightarrow> pin_state" where
  "togglePin m now s =
     (let s' =
        (if isPinned (message_id m) s
         then alert ''Message removed from your pins.''
                (s\<lparr>pinnedMessages := filter (\<lambda>pin. pin_id pin \<noteq> message_id m) (pinnedMessages s)\<rparr>)
         else alert ''Message pinned for you.''
                (s\<lparr>pinnedMessages := pinnedMessages s @
                     [\<lparr>pin_id = message_id m,
                       channelId = channel_id m,
                       content = message_content m,
                       author = username (message_author m),
                       timestamp = now\<rparr>]\<rparr>))
      in savePinnedMessages (pinnedMessages s') s')"

text \<open>The \<open>onClick\<close> handler of the Unpin button in \<open>ClientPinsTab\<close>, for the pin shown.\<close>

definition unpinClick :: "string \<Rightarrow> pin_state \<Rightarrow> pin_state" where
  "unpinClick pid s =
     (let s' = s\<lparr>pinnedMessages := filter (\<lambda>p. pin_id p \<noteq> pid) (pinnedMessages s)\<rparr>
      in savePinnedMessages (pinnedMessages s') s')"

text \<open>Sequences of operations on the pin store, applied left to right.\<close>

definition toggles :: "(message \<times> nat) list \<Rightarrow> pin_state \<Rightarrow> pin_state" where
  "toggles ops s = foldl (\<lambda>st (m, now). togglePin m now st) s ops"

datatype pin_op = TogglePin message nat | UnpinClick string

fun pin_step :: "pin_state \<Rightarrow> pin_op \<Rightarrow> pin_state" where
  "pin_step s (TogglePin m now) = togglePin m now s"
| "pin_step s (UnpinClick pid) = unpinClick pid s"

definition pin_run :: "pin_op list \<Rightarrow> pin_state \<Rightarrow> pin_state" where
  "pin_run ops s = foldl pin_step s ops"

definition pin_ids :: "pin_state \<Rightarrow> string list" where
  "pin_ids s = map pin_id (pinnedMessages s)"

text \<open>The state of a fresh installation: nothing stored, nothing pinned.\<close>

definition pin_init :: pin_state where
  "pin_init = \<lparr>pinnedMessages = [], DataStore = Map.empty, alerts = []\<rparr>"

text \<open>The message of the spec's scenario.\<close>

definition msg5 :: message where
  "msg5 = \<lparr>message_id = ''5'', channel_id = ''10'', message_content = ''hi'',
           message_author = \<lparr>username = ''bob''\<rparr>\<rparr>"

section \<open>AlwaysConnected: the in-client plugin\<close>

text \<open>
  The plugin object holds \<open>monitorInterval\<close>, \<open>lastVoiceChannel\<close> and
  \<open>wasManuallyDisconnected\<close>; it reaches the host through globals on \<open>window\<close>, the
  key-value \<open>DataStore\<close>, the native helper and the timer functions. What the host answers
  at the moment a callback runs is an input of that callback (\<open>host\<close>); what the plugin
  asks of the host, and each entry into \<open>autoRejoin\<close>, is appended to \<open>calls\<close>.
\<close>

datatype 'a outcome = Returns 'a | Throws

text \<open>
  \<open>window.VoiceService\<close>: absent, present without a \<open>join\<close> function, or with a
  \<open>join\<close> that returns or throws.
\<close>

datatype voice_service = NoVoiceService | NoJoinFunction | JoinReturns | JoinThrows

text \<open>
  \<open>VoiceConnectionStore = None\<close>: the global is falsy; \<open>Some (Returns b)\<close>:
  \<open>getConnection()\<close> returned a value whose truthiness is \<open>b\<close>. Likewise for
  \<open>SelectedChannelStore\<close>, whose \<open>getChannelId()\<close> returns a string or null/undefined.
\<close>

record host =
  VoiceConnectionStore :: "bool outcome option"
  SelectedChannelStore :: "string option outcome option"
  VoiceService :: voice_service

record voice_update =
  upd_channelId :: "string option"
  guildId :: "string option"
  selfMute :: bool
  selfDeaf :: bool

record flux_action =
  action_type :: string
  updates :: "voice_update list"

text \<open>
  The entry of the option table passed to \<open>definePluginSettings\<close>.
  \<open>definePluginSettings\<close> itself is not among the sources; \<open>autoRejoin\<close> reads the
  property path \<open>settings.autoRejoinDelay.default\<close>, which is the \<open>default\<close> of this
  entry. The value the user has configured for the option lives in the host's settings
  store; it is the field \<open>configured_autoRejoinDelay\<close> of the state below, and no function
  of the plugin reads it.
\<close>

record number_option =
  description :: string
  default_value :: nat
  restartNeeded :: bool

definition settings_autoRejoinDelay :: number_option where
  "settings_autoRejoinDelay =
     \<lparr>description = ''Delay between reconnect attempts (in ms)'',
      default_value = 30000,
      restartNeeded = False\<rparr>"

text \<open>A pending \<open>setTimeout\<close> callback of \<open>attemptRejoin\<close>, with what its closure captured.\<close>

record retry =
  retry_channelId :: string
  attempt :: nat
  baseDelay :: nat
  delay :: nat

datatype call =
    AutoRejoin
  | Join string
  | NativeKeepAlive string
  | SetTimeout nat
  | SetInterval nat
  | ClearInterval nat
  | DataStoreSet string string

record world =
  monitorInterval :: "nat option"
  lastVoiceChannel :: "string option"
  wasManuallyDisconnected :: bool
  configured_autoRejoinDelay :: nat
  dataStore :: "string \<rightharpoonup> string option"
  intervals :: "nat list"
  nextTimer :: nat
  timeouts :: "retry list"
  calls :: "call list"

definition dataStoreKey :: string where
  "dataStoreKey = ''AlwaysConnected_lastVoiceChannel''"

definition maxDelay :: nat where
  "maxDelay = 60000"

text \<open>JavaScript truthiness of a value that is a string or null.\<close>

definition truthy :: "string option \<Rightarrow> bool" where
  "truthy v = (case v of None \<Rightarrow> False | Some c \<Rightarrow> c \<noteq> [])"

definition isConnected :: "host \<Rightarrow> bool" where
  "isConnected h =
     (case VoiceConnectionStore h of
        None \<Rightarrow> False
      | Some Throws \<Rightarrow> False
      | Some (Returns voiceConn) \<Rightarrow> voiceConn)"

definition getCurrentVoiceChannelId :: "host \<Rightarrow> string option" where
  "getCurrentVoiceChannelId h =
     (case SelectedChannelStore h of
        None \<Rightarrow> None
      | Some Throws \<Rightarrow> None
      | Some (Returns selected) \<Rightarrow> selected)"

definition flux :: "flux_action \<Rightarrow> world \<Rightarrow> world" where
  "flux a s =
     (if action_type a = ''VOICE_STATE_UPDATES'' then
        (if list_ex (\<lambda>u. upd_channelId u = None) (updates a)
         then s\<lparr>wasManuallyDisconnected := True\<rparr> else s)
      else if action_type a = ''CONNECTION_OPEN'' then s\<lparr>wasManuallyDisconnected := False\<rparr>
      else s)"

text \<open>\<open>window.VoiceService && typeof window.VoiceService.join === "function"\<close>.\<close>

definition can_join :: "host \<Rightarrow> bool" where
  "can_join h = (VoiceService h = JoinReturns \<or> VoiceService h = JoinThrows)"

definition record_call :: "call \<Rightarrow> world \<Rightarrow> world" where
  "record_call c s = s\<lparr>calls := calls s @ [c]\<rparr>"

text \<open>
  One run of the inner \<open>attemptRejoin\<close>: the guarded \<open>join\<close> call, then the
  \<open>setTimeout\<close> whose callback is kept in \<open>timeouts\<close> until it fires.
\<close>

definition attemptRejoin :: "host \<Rightarrow> string \<Rightarrow> nat \<Rightarrow> nat \<Rightarrow> world \<Rightarrow> world" where
  "attemptRejoin h channel base n s =
     (let s1 = (if can_join h then record_call (Join channel) s else s);
          d = min (base * (n + 1)) maxDelay
      in record_call (SetTimeout d)
           (s1\<lparr>timeouts := timeouts s1 @
                 [\<lparr>retry_channelId = channel, attempt = n, baseDelay = base, delay = d\<rparr>]\<rparr>))"

text \<open>The channel \<open>autoRejoin\<close> aims at: \<open>(lastVoiceChannel ?? null) || getCurrentVoiceChannelId()\<close>.\<close>

definition rejoinTarget :: "host \<Rightarrow> world \<Rightarrow> string option" where
  "rejoinTarget h s =
     (if truthy (lastVoiceChannel s) then lastVoiceChannel s else getCurrentVoiceChannelId h)"

definition autoRejoin :: "host \<Rightarrow> world \<Rightarrow> world" where
  "autoRejoin h s =
     (let s0 = record_call AutoRejoin s in
      case rejoinTarget h s0 of
        None \<Rightarrow> s0
      | Some channel \<Rightarrow>
          if channel = [] then s0
          else attemptRejoin h channel (default_value settings_autoRejoinDelay) 0 s0)"

text \<open>
  The \<open>setTimeout\<close> callback of the pending retry at position \<open>i\<close>; a timeout that
  is not pending does not fire.
\<close>

definition retryTimeout :: "nat \<Rightarrow> host \<Rightarrow> world \<Rightarrow> world" where
  "retryTimeout i h s =
     (case drop i (timeouts s) of
        [] \<Rightarrow> s
      | r # later \<Rightarrow>
          (let s1 = s\<lparr>timeouts := take i (timeouts s) @ later\<rparr>
           in if \<not> isConnected h
              then attemptRejoin h (retry_channelId r) (baseDelay r) (attempt r + 1) s1
              else s1))"

definition keepAlive :: "world \<Rightarrow> world" where
  "keepAlive s =
     (case lastVoiceChannel s of
        None \<Rightarrow> s
      | Some channel \<Rightarrow> if channel = [] then s else record_call (NativeKeepAlive channel) s)"

text \<open>The body of the \<open>setInterval\<close> callback installed by \<open>start\<close>.\<close>

definition monitorTick :: "host \<Rightarrow> world \<Rightarrow> world" where
  "monitorTick h s =
     (if \<not> isConnected h \<and> \<not> wasManuallyDisconnected s then keepAlive (autoRejoin h s)
      else if isConnected h then
        (let s1 = s\<lparr>wasManuallyDisconnected := False\<rparr> in
         case getCurrentVoiceChannelId h of
           None \<Rightarrow> s1
         | Some current \<Rightarrow>
             if current = [] then s1
             else record_call (DataStoreSet dataStoreKey current)
                    (s1\<lparr>lastVoiceChannel := Some current,
                        dataStore := (dataStore s1)(dataStoreKey \<mapsto> Some current)\<rparr>))
      else s)"

definition start :: "host \<Rightarrow> world \<Rightarrow> world" where
  "start h s =
     (let s1 = s\<lparr>lastVoiceChannel :=
                   (case dataStore s dataStoreKey of None \<Rightarrow> None | Some v \<Rightarrow> v)\<rparr>;
          s2 = (if truthy (lastVoiceChannel s1) \<and> \<not> isConnected h then autoRejoin h s1 else s1);
          s3 = keepAlive s2;
          t = nextTimer s3
      in record_call (SetInterval 3000)
           (s3\<lparr>monitorInterval := Some t, intervals := intervals s3 @ [t], nextTimer := Suc t\<rparr>))"

definition stop :: "world \<Rightarrow> world" where
  "stop s =
     (case monitorInterval s of
        None \<Rightarrow> s
      | Some t \<Rightarrow>
          record_call (ClearInterval t)
            (s\<lparr>intervals := removeAll t (intervals s), monitorInterval := None\<rparr>))"

text \<open>
  What can happen to the plugin: a flux action is delivered, an armed monitor interval
  fires, a pending retry timeout fires, or the plugin is started or stopped. A tick with no
  armed interval does not happen.
\<close>

datatype event =
    Flux flux_action
  | MonitorTick host
  | RetryTimeout nat host
  | Start host
  | Stop

fun step :: "world \<Rightarrow> event \<Rightarrow> world" where
  "step s (Flux a) = flux a s"
| "step s (MonitorTick h) = (if intervals s = [] then s else monitorTick h s)"
| "step s (RetryTimeout i h) = retryTimeout i h s"
| "step s (Start h) = start h s"
| "step s Stop = stop s"

definition run :: "event list \<Rightarrow> world \<Rightarrow> world" where
  "run es s = foldl step s es"

text \<open>The retry chain left alone: the oldest pending timeout fires once per observation.\<close>

definition rechecks :: "host list \<Rightarrow> world \<Rightarrow> world" where
  "rechecks hs s = foldl (\<lambda>st h. step st (RetryTimeout 0 h)) s hs"

fun is_join :: "call \<Rightarrow> bool" where
  "is_join (Join c) = True"
| "is_join other = False"

definition joins :: "world \<Rightarrow> nat" where
  "joins s = length (filter is_join (calls s))"

fun timeout_delay :: "call \<Rightarrow> nat option" where
  "timeout_delay (SetTimeout d) = Some d"
| "timeout_delay other = None"

definition scheduled_delays :: "world \<Rightarrow> nat list" where
  "scheduled_delays s = List.map_filter timeout_delay (calls s)"

definition rejoins :: "world \<Rightarrow> nat" where
  "rejoins s = length (filter (\<lambda>c. c = AutoRejoin) (calls s))"

text \<open>
  Events at which the plugin observes a connection: a \<open>CONNECTION_OPEN\<close> action, or a
  monitor tick whose \<open>isConnected()\<close> is true.
\<close>

fun is_connection_open :: "event \<Rightarrow> bool" where
  "is_connection_open (Flux a) = (action_type a = ''CONNECTION_OPEN'')"
| "is_connection_open other = False"

fun is_connected_tick :: "event \<Rightarrow> bool" where
  "is_connected_tick (MonitorTick h) = isConnected h"
| "is_connected_tick other = False"

definition observes_connection :: "event \<Rightarrow> bool" where
  "observes_connection e = (is_connection_open e \<or> is_connected_tick e)"

text \<open>The retry that \<open>attemptRejoin channel base n\<close> leaves pending.\<close>

definition pending_retry :: "string \<Rightarrow> nat \<Rightarrow> nat \<Rightarrow> retry" where
  "pending_retry channel base n =
     \<lparr>retry_channelId = channel, attempt = n, baseDelay = base,
      delay = min (base * (n + 1)) maxDelay\<rparr>"

text \<open>Concrete hosts and states used in the examples below.\<close>

definition connected_host :: host where
  "connected_host =
     \<lparr>VoiceConnectionStore = Some (Returns True),
      SelectedChannelStore = Some (Returns (Some ''42'')),
      VoiceService = JoinReturns\<rparr>"

definition disconnected_host :: host where
  "disconnected_host =
     \<lparr>VoiceConnectionStore = Some (Returns False),
      SelectedChannelStore = Some (Returns None),
      VoiceService = JoinReturns\<rparr>"

definition world_init :: world where
  "world_init =
     \<lparr>monitorInterval = None, lastVoiceChannel = None, wasManuallyDisconnected = False,
      configured_autoRejoinDelay = 30000,
      dataStore = Map.empty, intervals = [], nextTimer = 1, timeouts = [], calls = []\<rparr>"

definition null_update :: flux_action where
  "null_update =
     \<lparr>action_type = ''VOICE_STATE_UPDATES'',
      updates = [\<lparr>upd_channelId = None, guildId = None, selfMute = False, selfDeaf = False\<rparr>]\<rparr>"

definition connection_open :: flux_action where
  "connection_open = \<lparr>action_type = ''CONNECTION_OPEN'', updates = []\<rparr>"

section \<open>AlwaysConnected: the native helper\<close>

text \<open>
  The helper keeps \<open>nativeMonitorInterval\<close> and a JSON state file. \<open>Unreadable\<close>
  stands for every way \<open>loadChannelId\<close> ends in its \<open>catch\<close> (no file, no JSON, no
  object); \<open>Parsed c\<close> for a parsed object whose \<open>channelId\<close> is \<open>c\<close>, \<open>None\<close>
  when it is null or missing. The actions handed to \<open>FluxDispatcher.dispatch\<close> and the
  commands handed to \<open>exec\<close> are logged; an exception of \<open>dispatch\<close> is caught by
  \<open>rejoinChannel\<close> and changes nothing else.
\<close>

datatype state_file = Unreadable | Parsed "string option"

datatype js_error = UncaughtException

text \<open>
  \<open>tasklist\<close>: what \<open>exec("tasklist")\<close> would hand its callback, an error or stdout.
  \<open>connection\<close>: \<open>VoiceConnectionStore?.getConnection()\<close>, \<open>None\<close> when the store
  is nullish. \<open>writeFile_ok\<close>: whether \<open>writeFileSync\<close> succeeds.
\<close>

record native_host =
  tasklist :: "string outcome"
  connection :: "bool outcome option"
  writeFile_ok :: bool

record native =
  nativeMonitorInterval :: "nat option"
  stateFile :: state_file
  native_intervals :: "(nat \<times> nat) list"
  native_nextTimer :: nat
  dispatched :: "flux_action list"
  execs :: "string list"

definition saveChannelId :: "native_host \<Rightarrow> string \<Rightarrow> native \<Rightarrow> native" where
  "saveChannelId h c n = (if writeFile_ok h then n\<lparr>stateFile := Parsed (Some c)\<rparr> else n)"

definition loadChannelId :: "native \<Rightarrow> string option" where
  "loadChannelId n = (case stateFile n of Unreadable \<Rightarrow> None | Parsed c \<Rightarrow> c)"

text \<open>ASCII letters only; \<open>str_includes\<close> is the substring search of \<open>String.includes\<close>.\<close>

definition lower_char :: "char \<Rightarrow> char" where
  "lower_char c =
     (let k = (of_char c :: nat) in if 65 \<le> k \<and> k \<le> 90 then char_of (k + 32) else c)"

definition toLowerCase :: "string \<Rightarrow> string" where
  "toLowerCase s = map lower_char s"

fun startsWith :: "string \<Rightarrow> string \<Rightarrow> bool" where
  "startsWith s [] = True"
| "startsWith [] (p # ps) = False"
| "startsWith (c # cs) (p # ps) = (c = p \<and> startsWith cs ps)"

fun str_includes :: "string \<Rightarrow> string \<Rightarrow> bool" where
  "str_includes [] pat = (pat = [])"
| "str_includes (c # cs) pat = (startsWith (c # cs) pat \<or> str_includes cs pat)"

text \<open>The command run and the boolean passed to the callback.\<close>

definition isDiscordRunning :: "native_host \<Rightarrow> native \<Rightarrow> native \<times> bool" where
  "isDiscordRunning h n =
     (n\<lparr>execs := execs n @ [''tasklist'']\<rparr>,
      case tasklist h of
        Throws \<Rightarrow> False
      | Returns stdout \<Rightarrow> str_includes (toLowerCase stdout) ''discord.exe'')"

definition synthetic_update :: "string \<Rightarrow> flux_action" where
  "synthetic_update c =
     \<lparr>action_type = ''VOICE_STATE_UPDATES'',
      updates = [\<lparr>upd_channelId = Some c, guildId = None, selfMute = False, selfDeaf = False\<rparr>]\<rparr>"

definition rejoinChannel :: "string \<Rightarrow> native \<Rightarrow> native" where
  "rejoinChannel c n = n\<lparr>dispatched := dispatched n @ [synthetic_update c]\<rparr>"

text \<open>
  The body of the helper's \<open>setInterval\<close> callback. The connection test is outside any
  \<open>try\<close>, so an accessor that throws ends the callback with that exception.
\<close>

definition nativeMonitorTick :: "native_host \<Rightarrow> native \<Rightarrow> js_error + native" where
  "nativeMonitorTick h n =
     (case loadChannelId n of
        None \<Rightarrow> Inr n
      | Some storedChannelId \<Rightarrow>
          if storedChannelId = [] then Inr n
          else (case connection h of
                  None \<Rightarrow> Inr (rejoinChannel storedChannelId n)
                | Some Throws \<Rightarrow> Inl UncaughtException
                | Some (Returns conn) \<Rightarrow>
                    if \<not> conn then Inr (rejoinChannel storedChannelId n) else Inr n))"

definition startNativeMonitor :: "native_host \<Rightarrow> string \<Rightarrow> native \<Rightarrow> native" where
  "startNativeMonitor h c n =
     (let n1 = saveChannelId h c n in
      case nativeMonitorInterval n1 of
        Some t \<Rightarrow> n1
      | None \<Rightarrow>
          (let t = native_nextTimer n1 in
           n1\<lparr>nativeMonitorInterval := Some t,
              native_intervals := native_intervals n1 @ [(t, 5000)],
              native_nextTimer := Suc t\<rparr>))"

definition stopNativeMonitor :: "native \<Rightarrow> native" where
  "stopNativeMonitor n =
     (case nativeMonitorInterval n of
        None \<Rightarrow> n
      | Some t \<Rightarrow>
          n\<lparr>native_intervals := filter (\<lambda>(t', period). t' \<noteq> t) (native_intervals n),
            nativeMonitorInterval := None\<rparr>)"

definition nativeKeepAlive :: "native_host \<Rightarrow> string \<Rightarrow> native \<Rightarrow> native" where
  "nativeKeepAlive h c n =
     (let n1 = saveChannelId h c n in
      if nativeMonitorInterval n1 = None then startNativeMonitor h c n1 else n1)"

text \<open>What the accessor says when it reports no connection: store nullish, or a falsy value.\<close>

definition no_connection :: "native_host \<Rightarrow> bool" where
  "no_connection h = (connection h = None \<or> connection h = Some (Returns False))"

definition native_init :: native where
  "native_init =
     \<lparr>nativeMonitorInterval = None, stateFile = Unreadable, native_intervals = [],
      native_nextTimer = 1, dispatched = [], execs = []\<rparr>"

text \<open>A machine on which the host application is not among the processes listed.\<close>

definition host_not_running :: native_host where
  "host_not_running =
     \<lparr>tasklist = Returns ''explorer.exe svchost.exe'', connection = None, writeFile_ok = True\<rparr>"

text \<open>The helper after the plugin's first keep-alive for channel \<open>42\<close>.\<close>

definition native_monitoring :: native where
  "native_monitoring = nativeKeepAlive host_not_running ''42'' native_init"

section \<open>Properties of the pin store\<close>

lemma pinnedMessages_savePinnedMessages [simp]:
  "pinnedMessages (savePinnedMessages pins s) = pinnedMessages s"
  by (simp add: savePinnedMessages_def)

lemma pinnedMessages_alert [simp]: "pinnedMessages (alert t s) = pinnedMessages s"
  by (simp add: alert_def)

lemma DataStore_alert [simp]: "DataStore (alert t s) = DataStore s"
  by (simp add: alert_def)

lemma pinnedMessages_togglePin:
  "pinnedMessages (togglePin m now s) =
     (if isPinned (message_id m) s
      then filter (\<lambda>pin. pin_id pin \<noteq> message_id m) (pinnedMessages s)
      else pinnedMessages s @
             [\<lparr>pin_id = message_id m, channelId = channel_id m, content = message_content m,
               author = username (message_author m), timestamp = now\<rparr>])"
  by (simp add: togglePin_def Let_def)

lemma DataStore_togglePin:
  "DataStore (togglePin m now s) = (DataStore s)(PINNED_KEY \<mapsto> pinnedMessages (togglePin m now s))"
  by (simp add: togglePin_def Let_def savePinnedMessages_def)

lemma pinnedMessages_unpinClick:
  "pinnedMessages (unpinClick pid s) = filter (\<lambda>p. pin_id p \<noteq> pid) (pinnedMessages s)"
  by (simp add: unpinClick_def Let_def)

lemma isPinned_iff: "isPinned i s \<longleftrightarrow> i \<in> set (pin_ids s)"
  by (auto simp: isPinned_def pin_ids_def list_ex_iff)

lemma pin_ids_togglePin:
  "pin_ids (togglePin m now s) =
     (if message_id m \<in> set (pin_ids s)
      then filter (\<lambda>i. i \<noteq> message_id m) (pin_ids s)
      else pin_ids s @ [message_id m])"
  by (simp add: pin_ids_def pinnedMessages_togglePin isPinned_iff filter_map comp_def)

lemma pin_ids_unpinClick: "pin_ids (unpinClick pid s) = filter (\<lambda>i. i \<noteq> pid) (pin_ids s)"
  by (simp add: pin_ids_def pinnedMessages_unpinClick filter_map comp_def)

lemma isPinned_togglePin:
  "isPinned i (togglePin m now s) \<longleftrightarrow> (if i = message_id m then \<not> isPinned i s else isPinned i s)"
  by (auto simp: isPinned_iff pin_ids_togglePin)

lemma toggles_snoc: "toggles (ops @ [(m, now)]) s = togglePin m now (toggles ops s)"
  by (simp add: toggles_def)

lemma pin_run_snoc: "pin_run (ops @ [x]) s = pin_step (pin_run ops s) x"
  by (simp add: pin_run_def)

lemma distinct_pin_step: "distinct (pin_ids s) \<Longrightarrow> distinct (pin_ids (pin_step s x))"
  by (cases x) (simp_all add: pin_ids_togglePin pin_ids_unpinClick)

text \<open>
  C1. Starting from an empty pinned list, after any finite sequence of \<open>togglePin\<close> calls a
  message id is pinned exactly when the number of calls made with that id is odd.
\<close>

theorem toggle_parity:
  "isPinned i (toggles ops (s\<lparr>pinnedMessages := []\<rparr>)) \<longleftrightarrow>
     odd (length (filter (\<lambda>(m, now). message_id m = i) ops))"
proof (induction ops rule: rev_induct)
  case Nil
  show ?case by (simp add: toggles_def isPinned_def)
next
  case (snoc x ops)
  obtain m now where x: "x = (m, now)" by (cases x)
  show ?case
  proof (cases "i = message_id m")
    case True
    with snoc.IH show ?thesis
      unfolding x toggles_snoc isPinned_togglePin by simp
  next
    case False
    with snoc.IH show ?thesis
      unfolding x toggles_snoc isPinned_togglePin by auto
  qed
qed

theorem toggle_parity_witness:
  "isPinned ''5'' (toggles [(msg5, 1), (msg5, 2), (msg5, 3)] pin_init) \<and>
   odd (length (filter (\<lambda>(m, now). message_id m = ''5'') [(msg5, 1), (msg5, 2), (msg5, 3 :: nat)]))"
  using toggle_parity [of "''5''" "[(msg5, 1), (msg5, 2), (msg5, 3)]" pin_init]
  by (simp add: pin_init_def msg5_def)

text \<open>
  C3. \<open>togglePin\<close> on a pinned id removes every record with that id and keeps the rest;
  on an id that is not pinned it appends exactly one record built from the message and
  the current time; either way the whole updated list is then stored under the key
  \<open>ClientPinnedMessages\<close>. Pinning the scenario's message on the empty list gives one entry
  with author \<open>bob\<close>, and toggling it again gives the empty list.
\<close>

theorem togglePin_contract:
  "(isPinned (message_id m) s \<longrightarrow>
      pinnedMessages (togglePin m now s) =
        filter (\<lambda>pin. pin_id pin \<noteq> message_id m) (pinnedMessages s) \<and>
      \<not> list_ex (\<lambda>pin. pin_id pin = message_id m) (pinnedMessages (togglePin m now s))) \<and>
   (\<not> isPinned (message_id m) s \<longrightarrow>
      pinnedMessages (togglePin m now s) =
        pinnedMessages s @
          [\<lparr>pin_id = message_id m, channelId = channel_id m, content = message_content m,
            author = username (message_author m), timestamp = now\<rparr>]) \<and>
   DataStore (togglePin m now s) =
     (DataStore s)(''ClientPinnedMessages'' \<mapsto> pinnedMessages (togglePin m now s)) \<and>
   pinnedMessages (togglePin msg5 t1 pin_init) =
     [\<lparr>pin_id = ''5'', channelId = ''10'', content = ''hi'', author = ''bob'', timestamp = t1\<rparr>] \<and>
   pinnedMessages (togglePin msg5 t2 (togglePin msg5 t1 pin_init)) = []"
proof -
  have removed: "isPinned (message_id m) s \<Longrightarrow>
      \<not> list_ex (\<lambda>pin. pin_id pin = message_id m) (pinnedMessages (togglePin m now s))"
    by (simp add: pinnedMessages_togglePin list_ex_iff)
  have stored: "DataStore (togglePin m now s) =
     (DataStore s)(''ClientPinnedMessages'' \<mapsto> pinnedMessages (togglePin m now s))"
    using DataStore_togglePin [of m now s] by (simp add: PINNED_KEY_def)
  have first: "pinnedMessages (togglePin msg5 t1 pin_init) =
     [\<lparr>pin_id = ''5'', channelId = ''10'', content = ''hi'', author = ''bob'', timestamp = t1\<rparr>]"
    by (simp add: pinnedMessages_togglePin isPinned_def pin_init_def msg5_def)
  have second: "pinnedMessages (togglePin msg5 t2 (togglePin msg5 t1 pin_init)) = []"
    by (simp add: pinnedMessages_togglePin [of msg5 t2] isPinned_def first) (simp add: msg5_def)
  show ?thesis
    using removed stored first second by (simp add: pinnedMessages_togglePin)
qed

theorem togglePin_contract_witness:
  "isPinned ''5'' (togglePin msg5 1 pin_init) \<and>
   pinnedMessages (togglePin msg5 2 (togglePin msg5 1 pin_init)) = [] \<and>
   DataStore (togglePin msg5 2 (togglePin msg5 1 pin_init)) ''ClientPinnedMessages'' = Some [] \<and>
   \<not> isPinned ''5'' pin_init \<and>
   DataStore (togglePin msg5 1 pin_init) ''ClientPinnedMessages'' =
     Some [\<lparr>pin_id = ''5'', channelId = ''10'', content = ''hi'', author = ''bob'', timestamp = 1\<rparr>]"
proof -
  have a: "isPinned (message_id msg5) (togglePin msg5 1 pin_init)"
    by (simp add: isPinned_togglePin) (simp add: isPinned_def pin_init_def)
  have b: "\<not> isPinned (message_id msg5) pin_init"
    by (simp add: isPinned_def pin_init_def)
  have id5: "message_id msg5 = ''5''" by (simp add: msg5_def)
  show ?thesis
    using a b togglePin_contract [of msg5 "togglePin msg5 1 pin_init" 2 1 2]
      togglePin_contract [of msg5 pin_init 1 1 2]
    by (simp add: id5)
qed

text \<open>
  C7. Starting from an empty pinned list, whatever sequence of \<open>togglePin\<close> calls and
  Unpin clicks is applied, no two records of the list carry the same message id.
\<close>

theorem pinned_ids_distinct:
  "distinct (pin_ids (pin_run ops (s\<lparr>pinnedMessages := []\<rparr>)))"
proof (induction ops rule: rev_induct)
  case Nil
  show ?case by (simp add: pin_run_def pin_ids_def)
next
  case (snoc x ops)
  then show ?case unfolding pin_run_snoc by (rule distinct_pin_step)
qed

theorem pinned_ids_distinct_witness:
  "distinct (map pin_id (pinnedMessages
     (pin_run [TogglePin msg5 1, UnpinClick ''7'', TogglePin msg5 2, TogglePin msg5 3] pin_init)))"
  using pinned_ids_distinct [of "[TogglePin msg5 1, UnpinClick ''7'', TogglePin msg5 2, TogglePin msg5 3]" pin_init]
  by (simp add: pin_ids_def pin_init_def)

section \<open>Properties of the plugin\<close>

lemmas world_eval =
  run_def flux_def start_def stop_def monitorTick_def autoRejoin_def attemptRejoin_def
  retryTimeout_def keepAlive_def record_call_def rejoinTarget_def truthy_def isConnected_def
  getCurrentVoiceChannelId_def can_join_def Let_def world_init_def connected_host_def
  disconnected_host_def null_update_def connection_open_def settings_autoRejoinDelay_def
  maxDelay_def dataStoreKey_def

lemma record_call_fields [simp]:
  "calls (record_call c s) = calls s @ [c]"
  "timeouts (record_call c s) = timeouts s"
  "dataStore (record_call c s) = dataStore s"
  "wasManuallyDisconnected (record_call c s) = wasManuallyDisconnected s"
  "lastVoiceChannel (record_call c s) = lastVoiceChannel s"
  "intervals (record_call c s) = intervals s"
  "monitorInterval (record_call c s) = monitorInterval s"
  "nextTimer (record_call c s) = nextTimer s"
  by (simp_all add: record_call_def)

lemma joins_record_call [simp]:
  "joins (record_call c s) = joins s + (if is_join c then 1 else 0)"
  by (simp add: joins_def)

lemma rejoins_record_call [simp]:
  "rejoins (record_call c s) = rejoins s + (if c = AutoRejoin then 1 else 0)"
  by (simp add: rejoins_def)

lemma scheduled_delays_record_call [simp]:
  "scheduled_delays (record_call c s) =
     scheduled_delays s @ (case timeout_delay c of None \<Rightarrow> [] | Some d \<Rightarrow> [d])"
  by (simp add: scheduled_delays_def map_filter_def split: option.splits)

lemma counters_timeouts_update [simp]:
  "joins (s\<lparr>timeouts := ts\<rparr>) = joins s"
  "rejoins (s\<lparr>timeouts := ts\<rparr>) = rejoins s"
  "scheduled_delays (s\<lparr>timeouts := ts\<rparr>) = scheduled_delays s"
  by (simp_all add: joins_def rejoins_def scheduled_delays_def)

lemma attemptRejoin_fields [simp]:
  "dataStore (attemptRejoin h c b k s) = dataStore s"
  "wasManuallyDisconnected (attemptRejoin h c b k s) = wasManuallyDisconnected s"
  "lastVoiceChannel (attemptRejoin h c b k s) = lastVoiceChannel s"
  "intervals (attemptRejoin h c b k s) = intervals s"
  "timeouts (attemptRejoin h c b k s) = timeouts s @ [pending_retry c b k]"
  "joins (attemptRejoin h c b k s) = joins s + (if can_join h then 1 else 0)"
  "rejoins (attemptRejoin h c b k s) = rejoins s"
  "scheduled_delays (attemptRejoin h c b k s) = scheduled_delays s @ [min (b * (k + 1)) maxDelay]"
  by (simp_all add: attemptRejoin_def Let_def pending_retry_def)

lemma autoRejoin_fields [simp]:
  "dataStore (autoRejoin h s) = dataStore s"
  "wasManuallyDisconnected (autoRejoin h s) = wasManuallyDisconnected s"
  "lastVoiceChannel (autoRejoin h s) = lastVoiceChannel s"
  "intervals (autoRejoin h s) = intervals s"
  "rejoins (autoRejoin h s) = rejoins s + 1"
  by (simp_all add: autoRejoin_def Let_def split: option.splits)

lemma rejoinTarget_record_call [simp]: "rejoinTarget h (record_call c s) = rejoinTarget h s"
  by (simp add: rejoinTarget_def)

lemma joins_autoRejoin:
  "joins (autoRejoin h s) =
     joins s + (if truthy (rejoinTarget h s) \<and> can_join h then 1 else 0)"
  by (simp add: autoRejoin_def Let_def truthy_def split: option.splits)

lemma keepAlive_fields [simp]:
  "dataStore (keepAlive s) = dataStore s"
  "wasManuallyDisconnected (keepAlive s) = wasManuallyDisconnected s"
  "lastVoiceChannel (keepAlive s) = lastVoiceChannel s"
  "intervals (keepAlive s) = intervals s"
  "timeouts (keepAlive s) = timeouts s"
  "joins (keepAlive s) = joins s"
  "rejoins (keepAlive s) = rejoins s"
  "scheduled_delays (keepAlive s) = scheduled_delays s"
  by (simp_all add: keepAlive_def split: option.splits)

lemma counters_connected_branch [simp]:
  "joins (s\<lparr>wasManuallyDisconnected := b\<rparr>) = joins s"
  "rejoins (s\<lparr>wasManuallyDisconnected := b\<rparr>) = rejoins s"
  "joins (s\<lparr>lastVoiceChannel := l, dataStore := d\<rparr>) = joins s"
  "rejoins (s\<lparr>lastVoiceChannel := l, dataStore := d\<rparr>) = rejoins s"
  by (simp_all add: joins_def rejoins_def)

lemma joins_monitorTick:
  "joins (monitorTick h s) =
     joins s + (if \<not> isConnected h \<and> \<not> wasManuallyDisconnected s \<and>
                   truthy (rejoinTarget h s) \<and> can_join h then 1 else 0)"
proof (cases "\<not> isConnected h \<and> \<not> wasManuallyDisconnected s")
  case True
  then show ?thesis by (simp add: monitorTick_def joins_autoRejoin)
next
  case False
  then show ?thesis by (auto simp: monitorTick_def Let_def split: option.splits)
qed

lemma rejoins_monitorTick:
  "rejoins (monitorTick h s) =
     rejoins s + (if \<not> isConnected h \<and> \<not> wasManuallyDisconnected s then 1 else 0)"
proof (cases "\<not> isConnected h \<and> \<not> wasManuallyDisconnected s")
  case True
  then show ?thesis by (simp add: monitorTick_def)
next
  case False
  then show ?thesis by (auto simp: monitorTick_def Let_def split: option.splits)
qed

text \<open>
  C6, as the code has it. With \<open>isConnected()\<close> false and the manual flag clear, one
  monitor tick enters \<open>autoRejoin\<close> exactly once and calls the host's \<open>join\<close> at most
  once: once when a non-empty channel id is known (\<open>lastVoiceChannel\<close>, else the selected
  channel) and \<open>window.VoiceService.join\<close> is a function, and not at all otherwise.
\<close>

theorem tick_join_count:
  "\<not> isConnected h \<Longrightarrow> \<not> wasManuallyDisconnected s \<Longrightarrow>
     rejoins (monitorTick h s) = rejoins s + 1 \<and>
     joins (monitorTick h s) =
       joins s + (if truthy (rejoinTarget h s) \<and> can_join h then 1 else 0)"
  by (simp add: joins_monitorTick rejoins_monitorTick)

theorem tick_join_count_witness:
  "\<not> isConnected disconnected_host \<and>
   \<not> wasManuallyDisconnected (world_init\<lparr>lastVoiceChannel := Some ''42''\<rparr>) \<and>
   rejoins (monitorTick disconnected_host (world_init\<lparr>lastVoiceChannel := Some ''42''\<rparr>)) = 1 \<and>
   joins (monitorTick disconnected_host (world_init\<lparr>lastVoiceChannel := Some ''42''\<rparr>)) = 1"
proof -
  let ?s = "world_init\<lparr>lastVoiceChannel := Some ''42''\<rparr>"
  have a: "\<not> isConnected disconnected_host"
    by (simp add: isConnected_def disconnected_host_def)
  have b: "\<not> wasManuallyDisconnected ?s"
    by (simp add: world_init_def)
  have c: "truthy (rejoinTarget disconnected_host ?s)" "can_join disconnected_host"
    by (simp_all add: rejoinTarget_def truthy_def world_init_def can_join_def disconnected_host_def)
  have d: "rejoins ?s = 0" "joins ?s = 0"
    by (simp_all add: rejoins_def joins_def world_init_def)
  show ?thesis
    using a b c d tick_join_count [OF a b] by simp
qed

text \<open>
  A fresh installation that has never seen a voice channel: the plugin starts, the first
  tick finds no connection and no manual disconnect, enters \<open>autoRejoin\<close>, and returns at
  \<open>if (!channelId) return\<close> without any \<open>join\<close>.
\<close>

theorem tick_join_count_counterexample:
  "isConnected disconnected_host = False \<and>
   wasManuallyDisconnected (start disconnected_host world_init) = False \<and>
   calls (step (start disconnected_host world_init) (MonitorTick disconnected_host)) =
     [SetInterval 3000, AutoRejoin] \<and>
   joins (step (start disconnected_host world_init) (MonitorTick disconnected_host)) = 0"
  by (simp add: world_eval joins_def)

lemma flux_fields [simp]:
  "dataStore (flux a s) = dataStore s"
  "calls (flux a s) = calls s"
  "timeouts (flux a s) = timeouts s"
  "intervals (flux a s) = intervals s"
  "lastVoiceChannel (flux a s) = lastVoiceChannel s"
  by (simp_all add: flux_def)

lemma retryTimeout_fields [simp]:
  "dataStore (retryTimeout i h s) = dataStore s"
  "wasManuallyDisconnected (retryTimeout i h s) = wasManuallyDisconnected s"
  "lastVoiceChannel (retryTimeout i h s) = lastVoiceChannel s"
  by (simp_all add: retryTimeout_def Let_def split: list.splits)

lemma start_fields [simp]:
  "dataStore (start h s) = dataStore s"
  "wasManuallyDisconnected (start h s) = wasManuallyDisconnected s"
  by (simp_all add: start_def Let_def)

lemma stop_fields [simp]:
  "dataStore (stop s) = dataStore s"
  "wasManuallyDisconnected (stop s) = wasManuallyDisconnected s"
  "lastVoiceChannel (stop s) = lastVoiceChannel s"
  "timeouts (stop s) = timeouts s"
  by (simp_all add: stop_def split: option.splits)

lemma run_snoc: "run (es @ [e]) s = step (run es s) e"
  by (simp add: run_def)

lemma flag_flux_null:
  "action_type a = ''VOICE_STATE_UPDATES'' \<Longrightarrow> list_ex (\<lambda>u. upd_channelId u = None) (updates a) \<Longrightarrow>
     wasManuallyDisconnected (flux a s)"
  by (simp add: flux_def)

lemma flag_step:
  "wasManuallyDisconnected s \<Longrightarrow> \<not> observes_connection e \<Longrightarrow> wasManuallyDisconnected (step s e)"
  by (cases e) (auto simp: observes_connection_def flux_def monitorTick_def)

lemma flag_run:
  "wasManuallyDisconnected s \<Longrightarrow> \<not> list_ex observes_connection es \<Longrightarrow>
     wasManuallyDisconnected (run es s)"
proof (induction es rule: rev_induct)
  case Nil
  then show ?case by (simp add: run_def)
next
  case (snoc e es)
  then show ?case by (simp add: run_snoc flag_step)
qed

text \<open>
  C2, as the code has it. After a \<open>VOICE_STATE_UPDATES\<close> action in which some update has
  \<open>channelId\<close> null, no monitor tick enters \<open>autoRejoin\<close> or calls \<open>join\<close> until the
  plugin observes a connection: a \<open>CONNECTION_OPEN\<close> action, or a monitor tick that finds
  \<open>isConnected()\<close> true (which clears the flag as well). Whatever else happens in between
  (other actions, disconnected ticks, retry timeouts, stop, start) does not lift the
  suppression.
\<close>

theorem manual_disconnect_suppression:
  assumes "action_type a = ''VOICE_STATE_UPDATES''"
    and "list_ex (\<lambda>u. upd_channelId u = None) (updates a)"
    and "\<not> list_ex observes_connection es"
  shows "rejoins (step (run es (flux a s)) (MonitorTick h)) = rejoins (run es (flux a s)) \<and>
         joins (step (run es (flux a s)) (MonitorTick h)) = joins (run es (flux a s))"
proof -
  have "wasManuallyDisconnected (run es (flux a s))"
    using assms by (simp add: flag_run flag_flux_null)
  then show ?thesis by (simp add: rejoins_monitorTick joins_monitorTick)
qed

theorem manual_disconnect_suppression_witness:
  "list_ex (\<lambda>u. upd_channelId u = None) (updates null_update) \<and>
   \<not> list_ex observes_connection [MonitorTick disconnected_host, RetryTimeout 0 disconnected_host] \<and>
   rejoins (step (run [MonitorTick disconnected_host, RetryTimeout 0 disconnected_host]
                    (flux null_update (run [Start connected_host, MonitorTick connected_host] world_init)))
              (MonitorTick disconnected_host)) =
   rejoins (run [MonitorTick disconnected_host, RetryTimeout 0 disconnected_host]
              (flux null_update (run [Start connected_host, MonitorTick connected_host] world_init)))"
proof -
  have a: "action_type null_update = ''VOICE_STATE_UPDATES''"
    by (simp add: null_update_def)
  have b: "list_ex (\<lambda>u. upd_channelId u = None) (updates null_update)"
    by (simp add: null_update_def)
  have c: "\<not> list_ex observes_connection [MonitorTick disconnected_host, RetryTimeout 0 disconnected_host]"
    by (simp add: observes_connection_def isConnected_def disconnected_host_def)
  show ?thesis
    using b c manual_disconnect_suppression [OF a b c,
        of "run [Start connected_host, MonitorTick connected_host] world_init" disconnected_host]
    by simp
qed

text \<open>
  The suppression ends without any \<open>CONNECTION_OPEN\<close>: the user leaves voice, joins a
  channel by hand (a tick sees the connection and clears the flag), and the next tick
  that finds no connection rejoins.
\<close>

theorem manual_disconnect_suppression_counterexample:
  "\<not> list_ex is_connection_open [MonitorTick connected_host, MonitorTick disconnected_host] \<and>
   calls (run [Start connected_host, Flux null_update, MonitorTick connected_host] world_init) =
     [SetInterval 3000, DataStoreSet ''AlwaysConnected_lastVoiceChannel'' ''42''] \<and>
   calls (run [Start connected_host, Flux null_update, MonitorTick connected_host,
               MonitorTick disconnected_host] world_init) =
     [SetInterval 3000, DataStoreSet ''AlwaysConnected_lastVoiceChannel'' ''42'',
      AutoRejoin, Join ''42'', SetTimeout 30000, NativeKeepAlive ''42'']"
  by (simp add: world_eval)

lemma rechecks_snoc: "rechecks (hs @ [h]) s = step (rechecks hs s) (RetryTimeout 0 h)"
  by (simp add: rechecks_def)

lemma retry_fires_disconnected:
  "timeouts s = [pending_retry c b k] \<Longrightarrow> \<not> isConnected h \<Longrightarrow>
     step s (RetryTimeout 0 h) = attemptRejoin h c b (k + 1) (s\<lparr>timeouts := []\<rparr>)"
  by (simp add: retryTimeout_def pending_retry_def)

lemma retry_fires_connected:
  "timeouts s = [r] \<Longrightarrow> isConnected h \<Longrightarrow> step s (RetryTimeout 0 h) = s\<lparr>timeouts := []\<rparr>"
  by (simp add: retryTimeout_def)

lemma rechecks_chain:
  "timeouts s = [pending_retry c b k] \<Longrightarrow> list_all (\<lambda>h. \<not> isConnected h) hs \<Longrightarrow>
     timeouts (rechecks hs s) = [pending_retry c b (k + length hs)] \<and>
     scheduled_delays (rechecks hs s) =
       scheduled_delays s @ map (\<lambda>j. min (b * (k + j + 1)) maxDelay) [1..<length hs + 1] \<and>
     joins (rechecks hs s) = joins s + length (filter can_join hs)"
proof (induction hs rule: rev_induct)
  case Nil
  then show ?case by (simp add: rechecks_def)
next
  case (snoc h hs)
  then have ih: "timeouts (rechecks hs s) = [pending_retry c b (k + length hs)]"
    "scheduled_delays (rechecks hs s) =
       scheduled_delays s @ map (\<lambda>j. min (b * (k + j + 1)) maxDelay) [1..<length hs + 1]"
    "joins (rechecks hs s) = joins s + length (filter can_join hs)"
    and h: "\<not> isConnected h"
    by simp_all
  have st: "rechecks (hs @ [h]) s =
      attemptRejoin h c b (k + length hs + 1) ((rechecks hs s)\<lparr>timeouts := []\<rparr>)"
    unfolding rechecks_snoc using retry_fires_disconnected [OF ih(1) h] .
  show ?case
    unfolding st by (simp add: ih(2,3) add.commute add.left_commute)
qed

lemma autoRejoin_target:
  "truthy (rejoinTarget h s) \<Longrightarrow>
     autoRejoin h s = attemptRejoin h (the (rejoinTarget h s)) 30000 0 (record_call AutoRejoin s)"
  by (auto simp: autoRejoin_def Let_def truthy_def settings_autoRejoinDelay_def split: option.splits)

text \<open>
  C4. With the base delay 30000, the delay scheduled before retry attempt \<open>k + 1\<close> is
  \<open>min (30000 * (k + 1)) 60000\<close>: 30000, 60000, 60000, 60000, ... There is no maximum
  attempt count: as long as every recheck finds \<open>isConnected()\<close> false another attempt is
  made and another retry is pending; the first recheck that finds it true ends the chain.
\<close>

theorem backoff_schedule:
  assumes "timeouts s = []" and "truthy (rejoinTarget h0 s)"
    and "list_all (\<lambda>h. \<not> isConnected h) hs"
  shows "scheduled_delays (rechecks hs (autoRejoin h0 s)) =
           scheduled_delays s @ map (\<lambda>k. min (30000 * (k + 1)) 60000) [0..<length hs + 1] \<and>
         map attempt (timeouts (rechecks hs (autoRejoin h0 s))) = [length hs] \<and>
         joins (rechecks hs (autoRejoin h0 s)) = joins s + length (filter can_join (h0 # hs)) \<and>
         (isConnected h \<longrightarrow>
            timeouts (rechecks (hs @ [h]) (autoRejoin h0 s)) = [] \<and>
            calls (rechecks (hs @ [h]) (autoRejoin h0 s)) = calls (rechecks hs (autoRejoin h0 s)))"
proof -
  let ?c = "the (rejoinTarget h0 s)"
  let ?s1 = "autoRejoin h0 s"
  have s1: "?s1 = attemptRejoin h0 ?c 30000 0 (record_call AutoRejoin s)"
    using assms(2) by (rule autoRejoin_target)
  have t1: "timeouts ?s1 = [pending_retry ?c 30000 0]"
    unfolding s1 by (simp add: assms(1))
  have d1: "scheduled_delays ?s1 = scheduled_delays s @ [min 30000 maxDelay]"
    unfolding s1 by simp
  have j1: "joins ?s1 = joins s + (if can_join h0 then 1 else 0)"
    unfolding s1 by simp
  note chain = rechecks_chain [OF t1 assms(3)]
  have delays: "scheduled_delays (rechecks hs ?s1) =
      scheduled_delays s @ map (\<lambda>k. min (30000 * (k + 1)) 60000) [0..<length hs + 1]"
  proof -
    have "map (\<lambda>k. min (30000 * (k + 1)) (60000::nat)) [0..<length hs + 1] =
          min 30000 60000 # map (\<lambda>k. min (30000 * (k + 1)) 60000) [1..<length hs + 1]"
      by (simp add: upt_conv_Cons del: upt_Suc)
    then show ?thesis using chain d1 by (simp add: maxDelay_def)
  qed
  have pending: "map attempt (timeouts (rechecks hs ?s1)) = [length hs]"
    using chain by (simp add: pending_retry_def)
  have count: "joins (rechecks hs ?s1) = joins s + length (filter can_join (h0 # hs))"
    using chain j1 by simp
  have stops: "timeouts (rechecks (hs @ [h]) ?s1) = [] \<and>
      calls (rechecks (hs @ [h]) ?s1) = calls (rechecks hs ?s1)" if "isConnected h"
    unfolding rechecks_snoc using retry_fires_connected [OF _ that] chain by simp
  show ?thesis using delays pending count stops by simp
qed

theorem backoff_schedule_witness:
  "scheduled_delays
     (rechecks [disconnected_host, disconnected_host, disconnected_host]
        (autoRejoin disconnected_host (world_init\<lparr>lastVoiceChannel := Some ''42''\<rparr>))) =
     [30000, 60000, 60000, 60000] \<and>
   joins
     (rechecks [disconnected_host, disconnected_host, disconnected_host]
        (autoRejoin disconnected_host (world_init\<lparr>lastVoiceChannel := Some ''42''\<rparr>))) = 4 \<and>
   timeouts
     (rechecks [disconnected_host, disconnected_host, disconnected_host, connected_host]
        (autoRejoin disconnected_host (world_init\<lparr>lastVoiceChannel := Some ''42''\<rparr>))) = []"
proof -
  let ?s = "world_init\<lparr>lastVoiceChannel := Some ''42''\<rparr>"
  let ?hs = "[disconnected_host, disconnected_host, disconnected_host]"
  have a: "timeouts ?s = []" by (simp add: world_init_def)
  have b: "truthy (rejoinTarget disconnected_host ?s)"
    by (simp add: rejoinTarget_def truthy_def world_init_def)
  have c: "list_all (\<lambda>h. \<not> isConnected h) ?hs"
    by (simp add: isConnected_def disconnected_host_def)
  have d: "isConnected connected_host" "can_join disconnected_host"
    by (simp_all add: isConnected_def connected_host_def can_join_def disconnected_host_def)
  have e: "scheduled_delays ?s = []" "joins ?s = 0"
    by (simp_all add: scheduled_delays_def joins_def world_init_def map_filter_def)
  have f: "[0..<4] = [0, 1, 2, 3]" by (simp add: upt_rec)
  show ?thesis
    using backoff_schedule [OF a b c, of connected_host] d e f by simp
qed

text \<open>
  C5. The claim is that the configured value of the setting is the base delay. The code
  reads the declared default instead: with 10000 configured, the first delay scheduled
  is 30000, where the claim asks for \<open>min (10000 * 1) 60000 = 10000\<close>.
\<close>

theorem autoRejoin_base_delay_is_default:
  "autoRejoin h (s\<lparr>configured_autoRejoinDelay := d\<rparr>) =
     (autoRejoin h s)\<lparr>configured_autoRejoinDelay := d\<rparr> \<and>
   scheduled_delays (autoRejoin h (s\<lparr>configured_autoRejoinDelay := d\<rparr>)) =
     scheduled_delays (autoRejoin h s) \<and>
   configured_autoRejoinDelay
     (world_init\<lparr>lastVoiceChannel := Some ''42'', configured_autoRejoinDelay := 10000\<rparr>) = 10000 \<and>
   scheduled_delays
     (autoRejoin disconnected_host
        (world_init\<lparr>lastVoiceChannel := Some ''42'', configured_autoRejoinDelay := 10000\<rparr>)) =
     [30000] \<and>
   min (10000 * (0 + 1)) maxDelay = 10000"
proof -
  have same: "autoRejoin h (s\<lparr>configured_autoRejoinDelay := d\<rparr>) =
      (autoRejoin h s)\<lparr>configured_autoRejoinDelay := d\<rparr>"
    by (simp add: autoRejoin_def attemptRejoin_def record_call_def rejoinTarget_def Let_def
          split: option.splits)
  have delays: "scheduled_delays (autoRejoin h (s\<lparr>configured_autoRejoinDelay := d\<rparr>)) =
      scheduled_delays (autoRejoin h s)"
    unfolding same by (simp add: scheduled_delays_def)
  have at_10000: "scheduled_delays
     (autoRejoin disconnected_host
        (world_init\<lparr>lastVoiceChannel := Some ''42'', configured_autoRejoinDelay := 10000\<rparr>)) =
     [30000]"
    by (simp add: world_eval scheduled_delays_def map_filter_def)
  show ?thesis
    using same delays at_10000 by (simp add: world_init_def maxDelay_def)
qed

lemma dataStore_monitorTick:
  "dataStore (monitorTick h s) =
     (if isConnected h \<and> truthy (getCurrentVoiceChannelId h)
      then (dataStore s)(dataStoreKey \<mapsto> getCurrentVoiceChannelId h)
      else dataStore s)"
  by (auto simp: monitorTick_def Let_def truthy_def split: option.splits)

lemma dataStore_step:
  "dataStore (step s e) =
     (case e of
        MonitorTick h \<Rightarrow>
          if intervals s \<noteq> [] \<and> isConnected h \<and> truthy (getCurrentVoiceChannelId h)
          then (dataStore s)(dataStoreKey \<mapsto> getCurrentVoiceChannelId h)
          else dataStore s
      | _ \<Rightarrow> dataStore s)"
  by (cases e) (simp_all add: dataStore_monitorTick)

lemma dataStore_step_unchanged:
  "\<not> is_connected_tick e \<Longrightarrow> dataStore (step s e) = dataStore s"
  by (cases e) (simp_all add: dataStore_monitorTick)

lemma dataStore_step_kept:
  "dataStore s k \<noteq> None \<Longrightarrow> dataStore (step s e) k \<noteq> None"
  by (simp add: dataStore_step split: event.splits)

lemma dataStore_step_not_null:
  "dataStore s dataStoreKey \<noteq> Some None \<Longrightarrow> dataStore (step s e) dataStoreKey \<noteq> Some None"
  by (auto simp: dataStore_step truthy_def split: event.splits option.splits)

lemma dataStore_run_unchanged:
  "\<not> list_ex is_connected_tick es \<Longrightarrow> dataStore (run es s) = dataStore s"
  by (induction es rule: rev_induct) (simp_all add: run_def dataStore_step_unchanged)

lemma dataStore_run_kept:
  "dataStore s k \<noteq> None \<Longrightarrow> dataStore (run es s) k \<noteq> None"
  by (induction es rule: rev_induct) (simp_all add: run_def dataStore_step_kept)

lemma dataStore_run_not_null:
  "dataStore s dataStoreKey \<noteq> Some None \<Longrightarrow> dataStore (run es s) dataStoreKey \<noteq> Some None"
  by (induction es rule: rev_induct) (simp_all add: run_def dataStore_step_not_null)

text \<open>
  C10. The entry \<open>AlwaysConnected_lastVoiceChannel\<close> changes only in a monitor tick that
  finds \<open>isConnected()\<close> true, and then to the non-empty channel id observed; \<open>start\<close>,
  \<open>stop\<close>, the flux handlers, \<open>autoRejoin\<close> and the retry timeouts leave the store as it
  is. No event deletes an entry or stores null, so a stored id survives manual
  disconnects and \<open>stop\<close> unchanged.
\<close>

theorem dataStore_frame:
  "(dataStore (step s e) \<noteq> dataStore s \<longrightarrow>
      (\<exists>h current. e = MonitorTick h \<and> isConnected h \<and>
         getCurrentVoiceChannelId h = Some current \<and> current \<noteq> [] \<and>
         dataStore (step s e) =
           (dataStore s)(''AlwaysConnected_lastVoiceChannel'' \<mapsto> Some current))) \<and>
   dataStore (start h s) = dataStore s \<and>
   dataStore (stop s) = dataStore s \<and>
   dataStore (flux a s) = dataStore s \<and>
   dataStore (autoRejoin h s) = dataStore s \<and>
   dataStore (retryTimeout i h s) = dataStore s \<and>
   (\<not> list_ex is_connected_tick es \<longrightarrow> dataStore (run es s) = dataStore s) \<and>
   (dataStore s k \<noteq> None \<longrightarrow> dataStore (run es s) k \<noteq> None) \<and>
   (dataStore s ''AlwaysConnected_lastVoiceChannel'' \<noteq> Some None \<longrightarrow>
      dataStore (run es s) ''AlwaysConnected_lastVoiceChannel'' \<noteq> Some None)"
proof -
  have only_tick: "dataStore (step s e) \<noteq> dataStore s \<longrightarrow>
      (\<exists>h current. e = MonitorTick h \<and> isConnected h \<and>
         getCurrentVoiceChannelId h = Some current \<and> current \<noteq> [] \<and>
         dataStore (step s e) =
           (dataStore s)(''AlwaysConnected_lastVoiceChannel'' \<mapsto> Some current))"
    by (cases e)
       (auto simp: dataStore_monitorTick truthy_def dataStoreKey_def split: option.splits if_splits)
  show ?thesis
    using only_tick dataStore_run_unchanged [of es s] dataStore_run_kept [of s k es]
      dataStore_run_not_null [of s es]
    by (simp add: dataStoreKey_def)
qed

theorem dataStore_frame_witness:
  "dataStore (run [Start connected_host, MonitorTick connected_host] world_init)
     ''AlwaysConnected_lastVoiceChannel'' = Some (Some ''42'') \<and>
   \<not> list_ex is_connected_tick [Flux null_update, MonitorTick disconnected_host, Stop] \<and>
   dataStore (run [Flux null_update, MonitorTick disconnected_host, Stop]
                (run [Start connected_host, MonitorTick connected_host] world_init))
     ''AlwaysConnected_lastVoiceChannel'' = Some (Some ''42'')"
proof -
  let ?s = "run [Start connected_host, MonitorTick connected_host] world_init"
  let ?es = "[Flux null_update, MonitorTick disconnected_host, Stop]"
  have a: "dataStore ?s ''AlwaysConnected_lastVoiceChannel'' = Some (Some ''42'')"
    by (simp add: world_eval)
  have b: "\<not> list_ex is_connected_tick ?es"
    by (simp add: isConnected_def disconnected_host_def)
  show ?thesis
    using a b dataStore_frame [of ?s "Stop" connected_host null_update 0 ?es "''AlwaysConnected_lastVoiceChannel''"]
    by simp
qed

section \<open>Properties of the native helper\<close>

lemmas native_eval =
  nativeMonitorTick_def loadChannelId_def rejoinChannel_def saveChannelId_def
  startNativeMonitor_def nativeKeepAlive_def native_init_def host_not_running_def
  native_monitoring_def Let_def

text \<open>
  C8. The native monitor is armed with a period of 5000 ms. Each tick loads the stored
  channel id; with none stored (no readable file, no \<open>channelId\<close>, or the empty string,
  which \<open>!storedChannelId\<close> treats alike) it does nothing; otherwise, when the connection
  accessor reports no connection, it dispatches one synthetic \<open>VOICE_STATE_UPDATES\<close>
  action carrying the stored id, and when it reports a connection it does nothing.
  Nothing is read back: the state after the tick is the state before it, plus the
  dispatched action.
\<close>

theorem native_tick_behaviour:
  "(nativeMonitorInterval n = None \<longrightarrow>
      native_intervals (startNativeMonitor h0 c0 n) = native_intervals n @ [(native_nextTimer n, 5000)]) \<and>
   (\<not> truthy (loadChannelId n) \<longrightarrow> nativeMonitorTick h n = Inr n) \<and>
   (loadChannelId n = Some c \<and> c \<noteq> [] \<and> no_connection h \<longrightarrow>
      nativeMonitorTick h n = Inr (n\<lparr>dispatched := dispatched n @ [synthetic_update c]\<rparr>)) \<and>
   (loadChannelId n = Some c \<and> c \<noteq> [] \<and> connection h = Some (Returns True) \<longrightarrow>
      nativeMonitorTick h n = Inr n) \<and>
   action_type (synthetic_update c) = ''VOICE_STATE_UPDATES'' \<and>
   map upd_channelId (updates (synthetic_update c)) = [Some c]"
proof -
  have arm: "nativeMonitorInterval n = None \<Longrightarrow>
      native_intervals (startNativeMonitor h0 c0 n) = native_intervals n @ [(native_nextTimer n, 5000)]"
    by (simp add: startNativeMonitor_def saveChannelId_def Let_def)
  have none: "\<not> truthy (loadChannelId n) \<Longrightarrow> nativeMonitorTick h n = Inr n"
    by (auto simp: nativeMonitorTick_def truthy_def split: option.splits)
  have absent: "loadChannelId n = Some c \<Longrightarrow> c \<noteq> [] \<Longrightarrow> no_connection h \<Longrightarrow>
      nativeMonitorTick h n = Inr (n\<lparr>dispatched := dispatched n @ [synthetic_update c]\<rparr>)"
    by (auto simp: nativeMonitorTick_def no_connection_def rejoinChannel_def)
  have present: "loadChannelId n = Some c \<Longrightarrow> c \<noteq> [] \<Longrightarrow> connection h = Some (Returns True) \<Longrightarrow>
      nativeMonitorTick h n = Inr n"
    by (simp add: nativeMonitorTick_def)
  show ?thesis
    using arm none absent present by (simp add: synthetic_update_def)
qed

theorem native_tick_behaviour_witness:
  "loadChannelId native_monitoring = Some ''42'' \<and> no_connection host_not_running \<and>
   native_intervals native_monitoring = [(1, 5000)] \<and>
   nativeMonitorTick host_not_running native_monitoring =
     Inr (native_monitoring\<lparr>dispatched := [synthetic_update ''42'']\<rparr>) \<and>
   nativeMonitorTick host_not_running native_init = Inr native_init \<and>
   nativeMonitorTick (host_not_running\<lparr>connection := Some (Returns True)\<rparr>) native_monitoring =
     Inr native_monitoring"
proof -
  have a: "loadChannelId native_monitoring = Some ''42''"
    by (simp add: native_eval)
  have b: "no_connection host_not_running"
    by (simp add: no_connection_def host_not_running_def)
  have c: "\<not> truthy (loadChannelId native_init)"
    by (simp add: truthy_def loadChannelId_def native_init_def)
  have d: "dispatched native_monitoring = []" "nativeMonitorInterval native_init = None"
    "native_intervals native_init = []" "native_nextTimer native_init = 1"
    by (simp_all add: native_eval)
  have e: "native_monitoring = startNativeMonitor host_not_running ''42'' native_init"
    by (simp add: native_eval)
  show ?thesis
    using a b c d
      native_tick_behaviour [of native_init host_not_running "''42''" host_not_running "''42''"]
      native_tick_behaviour [of native_monitoring host_not_running "''42''" host_not_running "''42''"]
      native_tick_behaviour [of native_monitoring host_not_running "''42''"
        "host_not_running\<lparr>connection := Some (Returns True)\<rparr>" "''42''"]
    by (simp add: e [symmetric])
qed

text \<open>
  C9. The claim is that every monitor cycle consults the process list and that
  reconnecting is gated on the host running. The tick never runs \<open>isDiscordRunning\<close>: its
  result does not depend on the process list, it issues no \<open>exec\<close>, and on a machine where
  \<open>isDiscordRunning\<close> would answer false it dispatches all the same.
\<close>

theorem native_tick_skips_process_check:
  "nativeMonitorTick (h\<lparr>tasklist := t\<rparr>) n = nativeMonitorTick h n \<and>
   (case nativeMonitorTick h n of Inl err \<Rightarrow> True | Inr n' \<Rightarrow> execs n' = execs n) \<and>
   snd (isDiscordRunning host_not_running native_monitoring) = False \<and>
   execs native_monitoring = [] \<and>
   nativeMonitorTick host_not_running native_monitoring =
     Inr (native_monitoring\<lparr>dispatched := [synthetic_update ''42'']\<rparr>)"
proof -
  have a: "nativeMonitorTick (h\<lparr>tasklist := t\<rparr>) n = nativeMonitorTick h n"
    by (simp add: nativeMonitorTick_def split: option.splits)
  have b: "case nativeMonitorTick h n of Inl err \<Rightarrow> True | Inr n' \<Rightarrow> execs n' = execs n"
    by (simp add: nativeMonitorTick_def rejoinChannel_def split: option.splits outcome.splits)
  have c: "snd (isDiscordRunning host_not_running native_monitoring) = False"
    by (simp add: isDiscordRunning_def host_not_running_def toLowerCase_def lower_char_def)
  have d: "execs native_monitoring = []"
    by (simp add: native_eval)
  have e: "nativeMonitorTick host_not_running native_monitoring =
     Inr (native_monitoring\<lparr>dispatched := [synthetic_update ''42'']\<rparr>)"
    by (simp add: native_eval)
  show ?thesis using a b c d e by simp
qed

end
